theory Spec2Isabelle
  imports Complex_Main "HOL-Library.Signed_Division"
begin

section \<open>The on-road HUD of selfdrive/ui/qt/onroad.cc\<close>

text \<open>
  A shallow embedding of the state-changing and value-computing parts of
  \<^verbatim>\<open>selfdrive/ui/qt/onroad.cc\<close>. Widget members and the fields of the
  telemetry snapshot are record fields; a method is a function from the state
  before the call to the state after it. C++ \<^verbatim>\<open>int\<close> values are
  \<open>int\<close> with the truncating division and remainder of C++ (\<open>sdiv\<close>,
  \<open>smod\<close>); \<^verbatim>\<open>float\<close>, \<^verbatim>\<open>double\<close> and
  \<^verbatim>\<open>qreal\<close> values are \<open>real\<close>, so rounding of the machine formats is
  not part of the model. What the painter draws is only modelled where a
  statement below is about it.
\<close>

subsection \<open>The persisted key-value settings\<close>

text \<open>
  Modelled from the spec: the class \<^verbatim>\<open>Params\<close> is not part of this
  file; the spec describes it as a persisted key-value store with a get/put
  API, whose non-blocking writes are fire-and-forget and are not read back
  synchronously. A store maps a key to the integer its value denotes (a
  boolean is stored as 1 or 0); a missing key reads as false and as 0. A
  blocking put stores the value; a non-blocking put queues the write, and the
  queue lists the writes requested and not yet stored, oldest first.
\<close>

record Params =
  stored :: "string \<rightharpoonup> int"
  pending :: "(string \<times> int) list"

definition getBool :: "Params \<Rightarrow> string \<Rightarrow> bool" where
  "getBool ps key = (stored ps key = Some 1)"

definition getInt :: "Params \<Rightarrow> string \<Rightarrow> int" where
  "getInt ps key = (case stored ps key of None \<Rightarrow> 0 | Some v \<Rightarrow> v)"

definition putBool :: "Params \<Rightarrow> string \<Rightarrow> bool \<Rightarrow> Params" where
  "putBool ps key b = ps\<lparr>stored := (stored ps)(key \<mapsto> (if b then 1 else 0))\<rparr>"

definition putBoolNonBlocking :: "Params \<Rightarrow> string \<Rightarrow> bool \<Rightarrow> Params" where
  "putBoolNonBlocking ps key b = ps\<lparr>pending := pending ps @ [(key, if b then 1 else 0)]\<rparr>"

definition putInt :: "Params \<Rightarrow> string \<Rightarrow> int \<Rightarrow> Params" where
  "putInt ps key v = ps\<lparr>stored := (stored ps)(key \<mapsto> v)\<rparr>"

definition putIntNonBlocking :: "Params \<Rightarrow> string \<Rightarrow> int \<Rightarrow> Params" where
  "putIntNonBlocking ps key v = ps\<lparr>pending := pending ps @ [(key, v)]\<rparr>"

subsection \<open>PersonalityButton\<close>

text \<open>
  The members of \<^verbatim>\<open>PersonalityButton\<close> that \<^verbatim>\<open>handleClick\<close>
  touches: the cached profile, the two stores (\<^verbatim>\<open>params\<close> and
  \<^verbatim>\<open>paramsMemory\<close>) and the transition timer, kept as the milliseconds
  elapsed since its last restart.
\<close>

record PersonalityButton =
  personalityProfile :: int
  pb_params :: Params
  pb_paramsMemory :: Params
  transitionTimer :: int

text \<open>\<^verbatim>\<open>static const int mapping[] = {2, 0, 1};\<close>\<close>

definition mapping :: "int list" where
  "mapping = [2, 0, 1]"

text \<open>\<^verbatim>\<open>PersonalityButton::updateState\<close> restarts the transition timer.\<close>

definition pb_updateState :: "PersonalityButton \<Rightarrow> PersonalityButton" where
  "pb_updateState b = b\<lparr>transitionTimer := 0\<rparr>"

text \<open>
  \<^verbatim>\<open>PersonalityButton::handleClick\<close>. The array read
  \<^verbatim>\<open>mapping[personalityProfile]\<close> is only defined for an index inside
  the array; outside of it the call has no defined result, which is \<open>None\<close>.
\<close>

definition handleClick :: "PersonalityButton \<Rightarrow> PersonalityButton option" where
  "handleClick b =
     (if 0 \<le> personalityProfile b \<and> personalityProfile b < int (length mapping) then
        let p = mapping ! nat (personalityProfile b) in
        Some (pb_updateState
          (b\<lparr>personalityProfile := p,
             pb_params := putInt (pb_params b) ''LongitudinalPersonality'' p,
             pb_paramsMemory := putBool (pb_paramsMemory b) ''PersonalityChangedViaUI'' True\<rparr>))
      else None)"

subsection \<open>Values of C++ and Qt used by the file\<close>

text \<open>
  The conversion \<^verbatim>\<open>(int)x\<close> of a floating value truncates towards zero,
  \<^verbatim>\<open>std::round\<close> rounds halves away from zero and
  \<^verbatim>\<open>std::nearbyint\<close> rounds halves to the even neighbour (the default
  rounding mode). \<^verbatim>\<open>qBound(min, val, max)\<close> and
  \<^verbatim>\<open>std::clamp(val, lo, hi)\<close> bound a value from both sides.
\<close>

definition c_int :: "real \<Rightarrow> int" where
  "c_int x = (if 0 \<le> x then \<lfloor>x\<rfloor> else \<lceil>x\<rceil>)"

definition std_round :: "real \<Rightarrow> real" where
  "std_round x = (if 0 \<le> x then of_int \<lfloor>x + 1 / 2\<rfloor> else of_int \<lceil>x - 1 / 2\<rceil>)"

definition nearbyint :: "real \<Rightarrow> real" where
  "nearbyint x =
     (let f = \<lfloor>x\<rfloor>; d = x - of_int f in
      if d < 1 / 2 then of_int f
      else if 1 / 2 < d then of_int (f + 1)
      else if even f then of_int f else of_int (f + 1))"

definition qBound :: "real \<Rightarrow> real \<Rightarrow> real \<Rightarrow> real" where
  "qBound lo val hi = max lo (min hi val)"

definition std_clamp :: "real \<Rightarrow> real \<Rightarrow> real \<Rightarrow> real" where
  "std_clamp val lo hi = (if val < lo then lo else if hi < val then hi else val)"

text \<open>A \<^verbatim>\<open>QString\<close> that the HUD shows: a formatted number or a literal.\<close>

datatype QString = number real | literal string

text \<open>
  The literal that the source shows in place of a number, a single en dash, as
  its UTF-8 bytes.
\<close>

definition en_dash :: string where
  "en_dash = [CHR 0xE2, CHR 0x80, CHR 0x93]"

subsection \<open>The telemetry snapshot\<close>

text \<open>
  The message types of the snapshot are declared outside this file; the records
  hold the fields that the file reads through their getters.
\<close>

datatype AlertSize = NONE | SMALL | MID | FULL

datatype SpeedLimitSign = MUTCD | VIENNA

datatype UIStatus = STATUS_DISENGAGED | STATUS_OVERRIDE | STATUS_ENGAGED

datatype VisionStreamType =
  VISION_STREAM_ROAD | VISION_STREAM_DRIVER | VISION_STREAM_WIDE_ROAD | VISION_STREAM_MAP

record ControlsState =
  vCruiseCluster :: real
  vCruise :: real
  cs_experimentalMode :: bool
  alertSize :: AlertSize

record CarState =
  vEgoCluster :: real
  vEgo :: real

record NavInstruction =
  nav_speedLimit :: real
  speedLimitSign :: SpeedLimitSign

record LeadData =
  lead_status :: bool
  dRel :: real
  vRel :: real

record RadarState =
  leadOne :: LeadData
  leadTwo :: LeadData

record DriverMonitoringState =
  isActiveMode :: bool
  isRHD :: bool

text \<open>
  \<^verbatim>\<open>SubMaster\<close>: per feed name whether it is alive, whether its last
  message is valid and the frame it was received at, and the last message of
  each feed the file reads.
\<close>

record SubMaster =
  alive :: "string \<Rightarrow> bool"
  valid :: "string \<Rightarrow> bool"
  rcv_frame :: "string \<Rightarrow> nat"
  controlsState :: ControlsState
  carState :: CarState
  navInstruction :: NavInstruction
  radarState :: RadarState
  driverMonitoringState :: DriverMonitoringState
  modelV2_frameId :: nat

text \<open>
  The fields of \<^verbatim>\<open>UIScene\<close> read or written by the modelled methods.
  The scene has more fields (the polygons of lanes, path and leads, the driver
  pose); they are the extension part of the record, of type \<open>'o\<close> below.
\<close>

type_synonym mat3 = "real list"

record UIScene =
  started_frame :: nat
  is_metric :: bool
  show_driver_camera :: bool
  wide_camera_disabled :: bool
  calibration_valid :: bool
  calibration_wide_valid :: bool
  view_from_calib :: mat3
  view_from_wide_calib :: mat3
  wide_cam :: bool
  longitudinal_control :: bool
  navigate_on_openpilot :: bool
  experimental_mode_via_wheel :: bool
  acceleration_path :: bool
  always_on_lateral_active :: bool
  blind_spot_left :: bool
  blind_spot_right :: bool
  conditional_experimental :: bool
  conditional_status :: int
  custom_colors :: int
  custom_signals :: int
  experimental_mode :: bool
  lead_info :: bool
  map_open :: bool
  mute_dm :: bool
  road_name_ui :: bool
  slc_overridden :: bool
  speed_limit :: real
  speed_limit_offset :: real
  turn_signal_left :: bool
  turn_signal_right :: bool
  vtsc_offset :: real

record 'o UIState =
  scene :: "'o UIScene_scheme"
  sm :: SubMaster
  ui_status :: UIStatus

text \<open>
  The unit constants are declared outside this file; they are parameters of the
  model.
\<close>

record UnitConsts =
  KM_TO_MILE :: real
  MS_TO_KPH :: real
  MS_TO_MPH :: real

text \<open>
  Variables that \<^verbatim>\<open>OnroadWindow\<close> and
  \<^verbatim>\<open>AnnotatedCameraWidget\<close> both use unqualified; they are declared
  in the header, outside this file, and are taken as one variable each.
\<close>

record Globals =
  reverseCruiseIncrease :: bool
  speedHidden :: bool
  displaySLCOffset :: bool
  fps :: real

subsection \<open>AnnotatedCameraWidget: the members\<close>

text \<open>
  The members of \<^verbatim>\<open>AnnotatedCameraWidget\<close> that the modelled methods
  read or write. \<open>pm_sent\<close> is the list of messages handed to the
  \<^verbatim>\<open>PubMaster pm\<close>, oldest first, each with its service name and its
  \<^verbatim>\<open>drawTimeMillis\<close>; \<open>fps_filter\<close> is the value held by the filter.
\<close>

record AnnotatedCameraWidget =
  setSpeed :: real
  is_cruise_set :: bool
  speed :: real
  speedLimit :: real
  has_us_speed_limit :: bool
  has_eu_speed_limit :: bool
  w_is_metric :: bool
  hideBottomIcons :: bool
  status :: UIStatus
  v_ego_cluster_seen :: bool
  dmActive :: bool
  rightHandDM :: bool
  dm_fade_state :: real
  accelerationPath :: bool
  alwaysOnLateral :: bool
  blindSpotLeft :: bool
  blindSpotRight :: bool
  conditionalExperimental :: bool
  conditionalStatus :: int
  customColors :: int
  customSignals :: int
  experimentalMode :: bool
  leadInfo :: bool
  mapOpen :: bool
  muteDM :: bool
  roadNameUI :: bool
  slcOverridden :: bool
  slcSpeedLimit :: real
  slcSpeedLimitOffset :: real
  turnSignalLeft :: bool
  turnSignalRight :: bool
  vtscOffset :: real
  animationFrameIndex :: int
  skip_frame_count :: int
  wide_cam_requested :: bool
  prev_draw_t :: real
  fps_filter :: real
  pm_sent :: "(string \<times> real) list"

subsection \<open>AnnotatedCameraWidget::updateState\<close>

text \<open>
  The method copies the snapshot into the members. The members read on a
  right-hand side before their own assignment (\<^verbatim>\<open>slcSpeedLimit\<close>,
  \<^verbatim>\<open>slcSpeedLimitOffset\<close>, \<^verbatim>\<open>customSignals\<close>, the turn
  signals) still hold the value of the previous call, as in the source. The
  calls into the child widgets and the layout, the reloading of the signal
  images and the members that are plain copies of scene fields used by none
  of the methods below are left out.
\<close>

definition updateState ::
  "UnitConsts \<Rightarrow> Globals \<Rightarrow> 'o UIState \<Rightarrow> AnnotatedCameraWidget \<Rightarrow> AnnotatedCameraWidget" where
  "updateState k g s w =
     (let SET_SPEED_NA = 255;
          cs_alive = alive (sm s) ''controlsState'';
          nav_alive = (alive (sm s) ''navInstruction'' \<and> valid (sm s) ''navInstruction'');
          cs = controlsState (sm s);
          car_state = carState (sm s);
          nav_instruction = navInstruction (sm s);
          v_cruise = (if vCruiseCluster cs = 0 then vCruise cs else vCruiseCluster cs);
          setSpeed0 = (if cs_alive then v_cruise else of_int SET_SPEED_NA);
          is_cruise_set' = (0 < setSpeed0 \<and> c_int setSpeed0 \<noteq> SET_SPEED_NA);
          setSpeed' = (if is_cruise_set' \<and> \<not> is_metric (scene s)
                       then setSpeed0 * KM_TO_MILE k else setSpeed0);
          v_ego_cluster_seen' = (v_ego_cluster_seen w \<or> vEgoCluster car_state \<noteq> 0);
          v_ego = (if v_ego_cluster_seen' then vEgoCluster car_state else vEgo car_state);
          speed0 = (if cs_alive then max 0 v_ego else 0);
          speed' = speed0 * (if is_metric (scene s) then MS_TO_KPH k else MS_TO_MPH k);
          speed_limit_sign = speedLimitSign nav_instruction;
          speedLimit0 = (if nav_alive then nav_speedLimit nav_instruction
                         else if slcSpeedLimit w \<noteq> 0 then slcSpeedLimit w else 0);
          speedLimit1 = speedLimit0 * (if is_metric (scene s) then MS_TO_KPH k else MS_TO_MPH k);
          speedLimit' = (if slcSpeedLimit w \<noteq> 0
                         then std_round (speedLimit1 -
                                (if displaySLCOffset g then slcSpeedLimitOffset w else 0))
                         else speedLimit1);
          has_us_speed_limit' = ((nav_alive \<and> speed_limit_sign = MUTCD) \<or> slcSpeedLimit w \<noteq> 0);
          has_eu_speed_limit' = (nav_alive \<and> speed_limit_sign = VIENNA);
          is_metric' = is_metric (scene s);
          hideBottomIcons' = (alertSize cs \<noteq> NONE \<or>
                              (customSignals w \<noteq> 0 \<and> (turnSignalLeft w \<or> turnSignalRight w)) \<or>
                              show_driver_camera (scene s));
          dm_state = driverMonitoringState (sm s);
          dmActive' = isActiveMode dm_state;
          dm_fade_state' = std_clamp (dm_fade_state w + 0.2 * (0.5 - (if dmActive' then 1 else 0))) 0 1
      in w\<lparr>setSpeed := setSpeed',
           is_cruise_set := is_cruise_set',
           v_ego_cluster_seen := v_ego_cluster_seen',
           speed := speed',
           speedLimit := speedLimit',
           has_us_speed_limit := has_us_speed_limit',
           has_eu_speed_limit := has_eu_speed_limit',
           w_is_metric := is_metric',
           hideBottomIcons := hideBottomIcons',
           status := ui_status s,
           dmActive := dmActive',
           rightHandDM := isRHD dm_state,
           dm_fade_state := dm_fade_state',
           accelerationPath := acceleration_path (scene s),
           alwaysOnLateral := always_on_lateral_active (scene s),
           blindSpotLeft := blind_spot_left (scene s),
           blindSpotRight := blind_spot_right (scene s),
           conditionalExperimental := conditional_experimental (scene s),
           conditionalStatus := conditional_status (scene s),
           customColors := custom_colors (scene s),
           experimentalMode := experimental_mode (scene s),
           leadInfo := lead_info (scene s),
           mapOpen := map_open (scene s),
           muteDM := mute_dm (scene s),
           roadNameUI := road_name_ui (scene s),
           slcOverridden := slc_overridden (scene s),
           slcSpeedLimit := speed_limit (scene s),
           slcSpeedLimitOffset := speed_limit_offset (scene s) *
             (if is_metric' then MS_TO_KPH k else MS_TO_MPH k),
           turnSignalLeft := turn_signal_left (scene s),
           turnSignalRight := turn_signal_right (scene s),
           vtscOffset := 0.1 * vtsc_offset (scene s) *
             (if is_metric' then MS_TO_KPH k else MS_TO_MPH k) + 0.9 * vtscOffset w,
           customSignals := custom_signals (scene s)\<rparr>)"

subsection \<open>AnnotatedCameraWidget::drawHud: readouts and speed-limit signs\<close>

text \<open>The text of the set-speed readout and of the speed limit.\<close>

definition setSpeedStr :: "AnnotatedCameraWidget \<Rightarrow> QString" where
  "setSpeedStr w =
     (if is_cruise_set w then number (nearbyint (setSpeed w - max (vtscOffset w - 1) 0))
      else literal en_dash)"

definition speedLimitStr :: "AnnotatedCameraWidget \<Rightarrow> QString" where
  "speedLimitStr w =
     (if 1 < speedLimit w then number (nearbyint (speedLimit w)) else literal en_dash)"

text \<open>
  The two sign blocks of \<^verbatim>\<open>drawHud\<close> are two separate
  \<^verbatim>\<open>if\<close> statements, the MUTCD one first; the result lists the signs
  painted, in paint order, each with the limit it shows.
\<close>

datatype SignDrawing = MUTCD_sign QString | VIENNA_sign QString

definition drawHud_signs :: "AnnotatedCameraWidget \<Rightarrow> SignDrawing list" where
  "drawHud_signs w =
     (if has_us_speed_limit w then [MUTCD_sign (speedLimitStr w)] else []) @
     (if has_eu_speed_limit w then [VIENNA_sign (speedLimitStr w)] else [])"

subsection \<open>AnnotatedCameraWidget::drawLaneLines: the gradient of the path edges\<close>

text \<open>
  A colour is kept as the call that builds it. A gradient is the list of its
  \<^verbatim>\<open>setColorAt\<close> calls, in call order.
\<close>

datatype QColor =
  fromHslF real real real real
  | fromRgb int int int int
  | darker int QColor

type_synonym gradient_stops = "(real \<times> QColor) list"

text \<open>
  \<^verbatim>\<open>themeConfiguration\<close>, filled by the constructor: per theme key the
  name of the theme, its main colour and its colour map, listed by position as
  the \<^verbatim>\<open>std::map\<close> iterates it.
\<close>

definition themeConfiguration :: "int \<Rightarrow> (string \<times> QColor \<times> gradient_stops) option" where
  "themeConfiguration key =
     (if key = 1 then Some (''frog_theme'', fromRgb 23 134 68 242,
        [(0.0, fromHslF (144 / 360) 0.71 0.31 0.9),
         (0.5, fromHslF (144 / 360) 0.71 0.31 0.5),
         (1.0, fromHslF (144 / 360) 0.71 0.31 0.1)])
      else if key = 2 then Some (''tesla_theme'', fromRgb 0 72 255 255,
        [(0.0, fromHslF (223 / 360) 1.0 0.5 0.9),
         (0.5, fromHslF (223 / 360) 1.0 0.5 0.5),
         (1.0, fromHslF (223 / 360) 1.0 0.5 0.1)])
      else if key = 3 then Some (''stalin_theme'', fromRgb 255 0 0 255,
        [(0.0, fromHslF (0 / 360) 1.0 0.5 0.9),
         (0.5, fromHslF (0 / 360) 1.0 0.5 0.5),
         (1.0, fromHslF (0 / 360) 1.0 0.5 0.1)])
      else None)"

text \<open>
  \<^verbatim>\<open>themeConfiguration[customColors].second.second\<close>: a key that the
  map does not hold reads as an empty colour map.
\<close>

definition colorMap :: "int \<Rightarrow> gradient_stops" where
  "colorMap key = (case themeConfiguration key of None \<Rightarrow> [] | Some (name, color, stops) \<Rightarrow> stops)"

text \<open>
  The stops set on the gradient \<^verbatim>\<open>pe\<close> of the path edges
  (\<^verbatim>\<open>// paint path edges\<close>).
\<close>

definition drawLaneLines_pe ::
  "AnnotatedCameraWidget \<Rightarrow> 'o UIScene_scheme \<Rightarrow> gradient_stops" where
  "drawLaneLines_pe w scn =
     (if alwaysOnLateral w then
        [(0.0, fromHslF (178 / 360) 0.90 0.38 1.0),
         (0.5, fromHslF (178 / 360) 0.90 0.38 0.5),
         (1.0, fromHslF (178 / 360) 0.90 0.38 0.1)]
      else if conditionalStatus w = 1 then
        [(0.0, fromHslF (58 / 360) 1.00 0.50 1.0),
         (0.5, fromHslF (58 / 360) 1.00 0.50 0.5),
         (1.0, fromHslF (58 / 360) 1.00 0.50 0.1)]
      else if experimentalMode w then
        [(0.0, fromHslF (25 / 360) 0.71 0.50 1.0),
         (0.5, fromHslF (25 / 360) 0.71 0.50 0.5),
         (1.0, fromHslF (25 / 360) 0.71 0.50 0.1)]
      else if navigate_on_openpilot scn then
        [(0.0, fromHslF (205 / 360) 0.85 0.56 1.0),
         (0.5, fromHslF (205 / 360) 0.85 0.56 0.5),
         (1.0, fromHslF (205 / 360) 0.85 0.56 0.1)]
      else if customColors w \<noteq> 0 then
        map (\<lambda>(position, brush). (position, darker 120 brush)) (colorMap (customColors w))
      else
        [(0.0, fromHslF (148 / 360) 0.94 0.51 1.0),
         (0.5, fromHslF (112 / 360) 1.00 0.68 0.5),
         (1.0, fromHslF (112 / 360) 1.00 0.68 0.1)])"

subsection \<open>AnnotatedCameraWidget::drawLead: opacity and size of the chevron\<close>









subsection \<open>The turn-signal animation\<close>

text \<open>
  The handler that the constructor connects to the animation timer. The
  constant \<^verbatim>\<open>totalFrames\<close> is declared in the header, outside this
  file, and is a parameter. A remainder by zero and an addition that leaves
  the range of \<^verbatim>\<open>int\<close> have no defined result (\<open>None\<close>).
\<close>

definition INT_MAX :: int where
  "INT_MAX = 2147483647"

definition animationTimer_timeout ::
  "int \<Rightarrow> AnnotatedCameraWidget \<Rightarrow> AnnotatedCameraWidget option" where
  "animationTimer_timeout totalFrames w =
     (if totalFrames = 0 \<or> animationFrameIndex w = INT_MAX then None
      else Some (w\<lparr>animationFrameIndex := (animationFrameIndex w + 1) smod totalFrames\<rparr>))"

text \<open>A number of consecutive timer ticks.\<close>

fun timer_ticks :: "nat \<Rightarrow> int \<Rightarrow> AnnotatedCameraWidget \<Rightarrow> AnnotatedCameraWidget option" where
  "timer_ticks 0 totalFrames w = Some w"
| "timer_ticks (Suc n) totalFrames w =
     Option.bind (animationTimer_timeout totalFrames w) (timer_ticks n totalFrames)"

text \<open>
  \<^verbatim>\<open>signalImgVector\<close> holds, after the constructor and after every
  reload, two rounds of four images with their mirrored variants and the two
  blind-spot images.
\<close>

definition signalImgVector_size :: int where
  "signalImgVector_size = 2 * (4 * 2) + 2"

text \<open>
  \<^verbatim>\<open>drawTurnSignals\<close>: the indices at which \<^verbatim>\<open>drawSignal\<close>
  reads \<^verbatim>\<open>signalImgVector\<close>, left signal first.
\<close>

definition drawSignal_index :: "int \<Rightarrow> AnnotatedCameraWidget \<Rightarrow> bool \<Rightarrow> bool \<Rightarrow> int" where
  "drawSignal_index totalFrames w flip blindspot =
     (let uniqueImages = signalImgVector_size sdiv 4 in
      (if blindspot then 2 * uniqueImages
       else (2 * animationFrameIndex w) smod totalFrames) + (if flip then 1 else 0))"

definition drawTurnSignals :: "int \<Rightarrow> AnnotatedCameraWidget \<Rightarrow> int list" where
  "drawTurnSignals totalFrames w =
     (if animationFrameIndex w < signalImgVector_size then
        (if turnSignalLeft w then [drawSignal_index totalFrames w False (blindSpotLeft w)] else []) @
        (if turnSignalRight w then [drawSignal_index totalFrames w True (blindSpotRight w)] else [])
      else [])"

subsection \<open>AnnotatedCameraWidget::drawStatusBar: the cross-fade\<close>

definition sb_fadeDuration :: real where
  "sb_fadeDuration = 1500.0"

definition sb_textDuration :: real where
  "sb_textDuration = 5000.0"

text \<open>
  \<^verbatim>\<open>// Calculate opacities\<close>: from the static flag
  \<^verbatim>\<open>displayStatusText\<close> and the \<^verbatim>\<open>int\<close> read from the timer,
  the pair (\<^verbatim>\<open>roadNameOpacity\<close>, \<^verbatim>\<open>statusTextOpacity\<close>).
\<close>

definition drawStatusBar_opacities :: "bool \<Rightarrow> int \<Rightarrow> real \<times> real" where
  "drawStatusBar_opacities displayStatusText elapsed =
     (if displayStatusText then
        let statusTextOpacity = qBound 0.0 (1.0 - (of_int elapsed - sb_textDuration) / sb_fadeDuration) 1.0;
            roadNameOpacity = 1.0 - statusTextOpacity
        in (roadNameOpacity, statusTextOpacity)
      else
        let roadNameOpacity = qBound 0.0 (of_int elapsed / sb_fadeDuration) 1.0;
            statusTextOpacity = 1.0 - roadNameOpacity
        in (roadNameOpacity, statusTextOpacity))"

subsection \<open>OnroadWindow::mousePressEvent\<close>

text \<open>
  A \<^verbatim>\<open>QRect\<close> keeps its left, top, right and bottom coordinates; built
  from a corner and a size, the right and bottom ones are the last column and
  row inside. \<^verbatim>\<open>contains\<close> includes the edges.
\<close>

type_synonym QPoint = "int \<times> int"

record QRect =
  rx1 :: int
  ry1 :: int
  rx2 :: int
  ry2 :: int

definition mkQRect :: "int \<Rightarrow> int \<Rightarrow> int \<Rightarrow> int \<Rightarrow> QRect" where
  "mkQRect x y w h = \<lparr>rx1 = x, ry1 = y, rx2 = x + w - 1, ry2 = y + h - 1\<rparr>"

definition contains :: "QRect \<Rightarrow> QPoint \<Rightarrow> bool" where
  "contains r p =
     (if rx2 r = rx1 r - 1 \<and> ry2 r = ry1 r - 1 then False
      else
        let l = (if rx2 r < rx1 r - 1 then rx2 r else rx1 r);
            rr = (if rx2 r < rx1 r - 1 then rx1 r else rx2 r);
            t = (if ry2 r < ry1 r - 1 then ry2 r else ry1 r);
            b = (if ry2 r < ry1 r - 1 then ry1 r else ry2 r)
        in if fst p < l \<or> rr < fst p then False
           else if snd p < t \<or> b < snd p then False
           else True)"

definition center_x :: "QRect \<Rightarrow> int" where
  "center_x r = (rx1 r + rx2 r) sdiv 2"

text \<open>
  The window: its size, the x coordinate of its geometry, whether the click
  timer runs, the member \<^verbatim>\<open>timeoutPoint\<close>, the map panel (\<open>None\<close>
  when there is no panel or the build has no maps, otherwise whether it is
  visible) and the events passed on to \<^verbatim>\<open>QWidget::mousePressEvent\<close>,
  oldest first.
\<close>

record OnroadWindow =
  ow_width :: int
  ow_height :: int
  geometry_x :: int
  clickTimer_active :: bool
  timeoutPoint :: QPoint
  map_visible :: "bool option"
  parent_events :: "QPoint list"

text \<open>What a click can change: the window, the shared variables and the two stores.\<close>

record OnroadEnv =
  win :: OnroadWindow
  globals :: Globals
  params :: Params
  paramsMemory :: Params

definition rect :: "OnroadWindow \<Rightarrow> QRect" where
  "rect ow = mkQRect 0 0 (ow_width ow) (ow_height ow)"

definition override_value :: "'o UIScene_scheme \<Rightarrow> int" where
  "override_value scn =
     (if conditional_status scn = 1 \<or> conditional_status scn = 2 \<or>
         conditional_status scn = 3 \<or> conditional_status scn = 4 then 0
      else if 5 \<le> conditional_status scn then 3 else 4)"

text \<open>
  The three rectangles: the cruise-increment button, the hide-speed button
  and the speed-limit-offset button.
\<close>

definition maxSpeedRect :: QRect where
  "maxSpeedRect = mkQRect 7 25 225 225"

definition speedRect :: "OnroadWindow \<Rightarrow> QRect" where
  "speedRect ow = mkQRect (center_x (rect ow) - 175) 50 350 350"

definition speedLimitRect :: QRect where
  "speedLimitRect = mkQRect 7 250 225 225"

text \<open>
  The first part of the method, up to \<^verbatim>\<open>#ifdef ENABLE_MAPS\<close>: the
  state and \<^verbatim>\<open>widgetClicked\<close>.
\<close>

definition mousePressEvent_widgets ::
  "'o UIScene_scheme \<Rightarrow> QPoint \<Rightarrow> OnroadEnv \<Rightarrow> OnroadEnv \<times> bool" where
  "mousePressEvent_widgets scn pos e =
     (let isMaxSpeedClicked = contains maxSpeedRect pos;
          isSpeedClicked = contains (speedRect (win e)) pos;
          isSpeedLimitClicked = contains speedLimitRect pos
      in
      if isMaxSpeedClicked \<or> isSpeedClicked \<or> isSpeedLimitClicked then
        ((if isMaxSpeedClicked then
            let v = (\<not> getBool (params e) ''ReverseCruiseIncrease'') in
            e\<lparr>globals := (globals e)\<lparr>reverseCruiseIncrease := v\<rparr>,
              params := putBoolNonBlocking (params e) ''ReverseCruiseIncrease'' v,
              paramsMemory := putBoolNonBlocking (paramsMemory e) ''FrogPilotTogglesUpdated'' True\<rparr>
          else if isSpeedClicked then
            let v = (\<not> getBool (params e) ''HideSpeed'') in
            e\<lparr>globals := (globals e)\<lparr>speedHidden := v\<rparr>,
              params := putBoolNonBlocking (params e) ''HideSpeed'' v\<rparr>
          else
            let v = (\<not> getBool (params e) ''DisplaySLCOffset'') in
            e\<lparr>globals := (globals e)\<lparr>displaySLCOffset := v\<rparr>,
              params := putBoolNonBlocking (params e) ''DisplaySLCOffset'' v\<rparr>),
         True)
      else if experimental_mode_via_wheel scn \<and> pos \<noteq> timeoutPoint (win e) then
        ((if clickTimer_active (win e) then
            let e' = e\<lparr>win := (win e)\<lparr>clickTimer_active := False\<rparr>\<rparr> in
            if conditional_experimental scn then
              e'\<lparr>paramsMemory :=
                   putIntNonBlocking (paramsMemory e') ''ConditionalStatus'' (override_value scn)\<rparr>
            else
              let experimentalMode = getBool (params e') ''ExperimentalMode'' in
              e'\<lparr>params := putBoolNonBlocking (params e') ''ExperimentalMode'' (\<not> experimentalMode)\<rparr>
          else e\<lparr>win := (win e)\<lparr>clickTimer_active := True\<rparr>\<rparr>),
         True)
      else (e, False))"

text \<open>The map block and the propagation to the parent.\<close>

definition mousePressEvent :: "'o UIScene_scheme \<Rightarrow> QPoint \<Rightarrow> OnroadEnv \<Rightarrow> OnroadEnv" where
  "mousePressEvent scn pos e =
     (let (e1, widgetClicked) = mousePressEvent_widgets scn pos e;
          e2 = (case map_visible (win e1) of
                  None \<Rightarrow> e1
                | Some visible \<Rightarrow>
                    if \<not> widgetClicked then
                      let sidebarVisible = (0 < geometry_x (win e1));
                          show_map = (if navigate_on_openpilot scn then sidebarVisible
                                      else \<not> sidebarVisible)
                      in if \<not> experimental_mode_via_wheel scn \<or> visible
                         then e1\<lparr>win := (win e1)\<lparr>map_visible := Some (show_map \<and> \<not> visible)\<rparr>\<rparr>
                         else e1
                    else e1)
      in
      if \<not> widgetClicked then
        let sidebarVisible = (0 < geometry_x (win e2)) in
        e2\<lparr>win := (win e2)\<lparr>parent_events := parent_events (win e2) @ [pos]\<rparr>,
           params := putBoolNonBlocking (params e2) ''Sidebar'' (\<not> sidebarVisible)\<rparr>
      else e2)"

subsection \<open>AnnotatedCameraWidget::paintGL\<close>

text \<open>
  What \<^verbatim>\<open>paintGL\<close> calls and this file does not define: the base class
  \<^verbatim>\<open>CameraWidget\<close>, whose state has the type \<open>'cw\<close> here, with its
  frame queue, its stream set and its setters; the functions of the UI state
  that refresh the scene from the snapshot; the filter of the frame rate. They
  are parameters of the model.
\<close>

record ('o, 'cw) Externals =
  frames_empty :: "'cw \<Rightarrow> bool"
  available_streams :: "'cw \<Rightarrow> VisionStreamType set"
  setStreamType :: "VisionStreamType \<Rightarrow> 'cw \<Rightarrow> 'cw"
  getStreamType :: "'cw \<Rightarrow> VisionStreamType"
  updateCalibration :: "mat3 \<Rightarrow> 'cw \<Rightarrow> 'cw"
  setFrameId :: "nat \<Rightarrow> 'cw \<Rightarrow> 'cw"
  CameraWidget_paintGL :: "'cw \<Rightarrow> 'cw"
  DEFAULT_CALIBRATION :: mat3
  worldObjectsVisible :: "'o UIState \<Rightarrow> bool"
  update_model :: "'o UIState \<Rightarrow> 'o UIState"
  update_leads :: "'o UIState \<Rightarrow> 'o UIState"
  update_dmonitoring :: "real \<Rightarrow> bool \<Rightarrow> 'o UIState \<Rightarrow> 'o UIState"
  filter_update :: "real \<Rightarrow> real \<Rightarrow> real"

text \<open>
  The state around a paint call: the UI state with the scene and the snapshot,
  the widget, its base class, the shared variables and the store at
  \<^verbatim>\<open>/dev/shm/params\<close>.
\<close>

record ('o, 'cw) PaintState =
  ps_ui :: "'o UIState"
  ps_widget :: AnnotatedCameraWidget
  ps_camera :: 'cw
  ps_globals :: Globals
  ps_paramsMemory :: Params

text \<open>\<^verbatim>\<open>// Wide or narrow cam dependent on speed\<close>\<close>

definition paintGL_wide_cam_requested ::
  "('o, 'cw) Externals \<Rightarrow> 'o UIState \<Rightarrow> 'cw \<Rightarrow> bool \<Rightarrow> bool" where
  "paintGL_wide_cam_requested ext s cam requested =
     (let has_wide_cam = (VISION_STREAM_WIDE_ROAD \<in> available_streams ext cam) in
      if has_wide_cam \<and> \<not> wide_camera_disabled (scene s) then
        let v_ego = vEgo (carState (sm s));
            r0 = (if v_ego < 10 \<or> card (available_streams ext cam) = 1 then True
                  else if 15 < v_ego then False else requested);
            r1 = (r0 \<and> cs_experimentalMode (controlsState (sm s)))
        in (r1 \<and> calibration_wide_valid (scene s))
      else requested)"

text \<open>The scene updates between the camera frame and the HUD.\<close>

definition paintGL_updates ::
  "('o, 'cw) Externals \<Rightarrow> AnnotatedCameraWidget \<Rightarrow> 'o UIState \<Rightarrow> 'o UIState" where
  "paintGL_updates ext w s =
     (if \<not> show_driver_camera (scene s) then
        let s1 = (if worldObjectsVisible ext s then
                    if started_frame (scene s) < rcv_frame (sm s) ''modelV2'' then
                      let s' = update_model ext s in
                      if started_frame (scene s') < rcv_frame (sm s') ''radarState''
                      then update_leads ext s' else s'
                    else s
                  else s)
        in if \<not> hideBottomIcons w \<and>
              started_frame (scene s1) < rcv_frame (sm s1) ''driverStateV2'' \<and> \<not> muteDM w
           then update_dmonitoring ext (dm_fade_state w) (rightHandDM w) s1
           else s1
      else s)"

text \<open>
  The method, given the two readings of \<^verbatim>\<open>millis_since_boot\<close>, at the
  start of the call and after drawing. The draw calls themselves
  (\<^verbatim>\<open>drawLaneLines\<close>, \<^verbatim>\<open>drawLead\<close>, \<^verbatim>\<open>drawDriverState\<close>,
  \<^verbatim>\<open>drawHud\<close>) paint from this state and assign none of it; the painter
  and the log are not part of the state.
\<close>

definition paintGL ::
  "('o, 'cw) Externals \<Rightarrow> real \<Rightarrow> real \<Rightarrow> ('o, 'cw) PaintState \<Rightarrow> ('o, 'cw) PaintState" where
  "paintGL ext start_draw_t cur_draw_t st =
     (let s = ps_ui st; w = ps_widget st; cam = ps_camera st in
      if frames_empty ext cam \<and> 0 < skip_frame_count w then
        st\<lparr>ps_widget := w\<lparr>skip_frame_count := skip_frame_count w - 1\<rparr>\<rparr>
      else
        let w1 = (if frames_empty ext cam then w else w\<lparr>skip_frame_count := 5\<rparr>);
            requested = paintGL_wide_cam_requested ext s cam (wide_cam_requested w1);
            paramsMemory' = putBoolNonBlocking (ps_paramsMemory st) ''WideCamera'' requested;
            cam1 = setStreamType ext
                     (if show_driver_camera (scene s) then VISION_STREAM_DRIVER
                      else if requested then VISION_STREAM_WIDE_ROAD else VISION_STREAM_ROAD) cam;
            s1 = s\<lparr>scene := (scene s)\<lparr>wide_cam := (getStreamType ext cam1 = VISION_STREAM_WIDE_ROAD)\<rparr>\<rparr>;
            cam2 = (if calibration_valid (scene s1) then
                      updateCalibration ext
                        (if wide_cam (scene s1) then view_from_wide_calib (scene s1)
                         else view_from_calib (scene s1)) cam1
                    else updateCalibration ext (DEFAULT_CALIBRATION ext) cam1);
            cam3 = CameraWidget_paintGL ext (setFrameId ext (modelV2_frameId (sm s1)) cam2);
            s2 = paintGL_updates ext w1 s1;
            dt = cur_draw_t - prev_draw_t w1;
            fps' = filter_update ext (1 / dt * 1000) (fps_filter w1)
        in \<lparr>ps_ui = s2,
            ps_widget = w1\<lparr>wide_cam_requested := requested, prev_draw_t := cur_draw_t,
              fps_filter := fps',
              pm_sent := pm_sent w1 @ [(''uiDebug'', cur_draw_t - start_draw_t)]\<rparr>,
            ps_camera = cam3,
            ps_globals = (ps_globals st)\<lparr>fps := fps'\<rparr>,
            ps_paramsMemory = paramsMemory'\<rparr>)"

subsection \<open>Example states\<close>

text \<open>
  Concrete values at which the statements below are evaluated: unit constants,
  a snapshot with every feed alive, a metric scene, a widget before its first
  update, a window, and a base class that keeps the requested and the active
  stream apart.
\<close>

definition example_consts :: UnitConsts where
  "example_consts = \<lparr>KM_TO_MILE = 0.621371, MS_TO_KPH = 3.6, MS_TO_MPH = 2.236936\<rparr>"

definition example_globals :: Globals where
  "example_globals = \<lparr>reverseCruiseIncrease = False, speedHidden = False,
     displaySLCOffset = False, fps = 20\<rparr>"

definition example_scene :: UIScene where
  "example_scene = \<lparr>started_frame = 0, is_metric = True, show_driver_camera = False,
     wide_camera_disabled = False, calibration_valid = True, calibration_wide_valid = True,
     view_from_calib = [1, 0, 0, 0, 1, 0, 0, 0, 1],
     view_from_wide_calib = [1, 0, 0, 0, 1, 0, 0, 0, 1], wide_cam = True, longitudinal_control = True, navigate_on_openpilot = False,
     experimental_mode_via_wheel = False, acceleration_path = False,
     always_on_lateral_active = False, blind_spot_left = False, blind_spot_right = False,
     conditional_experimental = False, conditional_status = 0, custom_colors = 0,
     custom_signals = 0, experimental_mode = False, lead_info = False, map_open = False,
     mute_dm = False, road_name_ui = False, slc_overridden = False, speed_limit = 0,
     speed_limit_offset = 0, turn_signal_left = False, turn_signal_right = False,
     vtsc_offset = 0\<rparr>"

definition example_sm :: SubMaster where
  "example_sm = \<lparr>alive = (\<lambda>name. True), valid = (\<lambda>name. True), rcv_frame = (\<lambda>name. 10),
     controlsState = \<lparr>vCruiseCluster = 0, vCruise = 100, cs_experimentalMode = False,
       alertSize = NONE\<rparr>,
     carState = \<lparr>vEgoCluster = 0, vEgo = 20\<rparr>,
     navInstruction = \<lparr>nav_speedLimit = 25, speedLimitSign = VIENNA\<rparr>,
     radarState = \<lparr>leadOne = \<lparr>lead_status = False, dRel = 0, vRel = 0\<rparr>,
       leadTwo = \<lparr>lead_status = False, dRel = 0, vRel = 0\<rparr>\<rparr>,
     driverMonitoringState = \<lparr>isActiveMode = True, isRHD = False\<rparr>,
     modelV2_frameId = 7\<rparr>"

definition example_state :: "unit UIState" where
  "example_state = \<lparr>scene = example_scene, sm = example_sm, ui_status = STATUS_ENGAGED\<rparr>"

definition example_widget :: AnnotatedCameraWidget where
  "example_widget = \<lparr>setSpeed = 0, is_cruise_set = False, speed = 0, speedLimit = 0,
     has_us_speed_limit = False, has_eu_speed_limit = False, w_is_metric = False,
     hideBottomIcons = False, status = STATUS_DISENGAGED, v_ego_cluster_seen = False,
     dmActive = False, rightHandDM = False, dm_fade_state = 0, accelerationPath = False,
     alwaysOnLateral = False, blindSpotLeft = False, blindSpotRight = False,
     conditionalExperimental = False, conditionalStatus = 0, customColors = 0,
     customSignals = 0, experimentalMode = False, leadInfo = False, mapOpen = False,
     muteDM = False, roadNameUI = False, slcOverridden = False, slcSpeedLimit = 0,
     slcSpeedLimitOffset = 0, turnSignalLeft = False, turnSignalRight = False,
     vtscOffset = 0, animationFrameIndex = 0, skip_frame_count = 0,
     wide_cam_requested = False, prev_draw_t = 0, fps_filter = 20, pm_sent = []\<rparr>"

definition example_window :: OnroadWindow where
  "example_window = \<lparr>ow_width = 400, ow_height = 1080, geometry_x = 0,
     clickTimer_active = False, timeoutPoint = (420, 69), map_visible = None,
     parent_events = []\<rparr>"

definition example_params :: Params where
  "example_params = \<lparr>stored = Map.empty, pending = []\<rparr>"

definition example_env :: OnroadEnv where
  "example_env = \<lparr>win = example_window, globals = example_globals,
     params = example_params, paramsMemory = example_params\<rparr>"

record ExampleCamera =
  ex_frames :: "nat list"
  ex_streams :: "VisionStreamType set"
  ex_requested :: VisionStreamType
  ex_active :: VisionStreamType
  ex_calibration :: mat3
  ex_frame_id :: nat
  ex_painted :: nat

definition example_camera :: ExampleCamera where
  "example_camera = \<lparr>ex_frames = [7], ex_streams = {VISION_STREAM_ROAD},
     ex_requested = VISION_STREAM_ROAD, ex_active = VISION_STREAM_ROAD,
     ex_calibration = [], ex_frame_id = 0, ex_painted = 0\<rparr>"

definition example_ext :: "(unit, ExampleCamera) Externals" where
  "example_ext = \<lparr>frames_empty = (\<lambda>c. ex_frames c = []),
     available_streams = ex_streams,
     setStreamType = (\<lambda>t c. c\<lparr>ex_requested := t\<rparr>),
     getStreamType = ex_active,
     updateCalibration = (\<lambda>m c. c\<lparr>ex_calibration := m\<rparr>),
     setFrameId = (\<lambda>n c. c\<lparr>ex_frame_id := n\<rparr>),
     CameraWidget_paintGL = (\<lambda>c. c\<lparr>ex_painted := ex_painted c + 1\<rparr>),
     DEFAULT_CALIBRATION = [1, 0, 0, 0, 1, 0, 0, 0, 1],
     worldObjectsVisible = (\<lambda>s. started_frame (scene s) < rcv_frame (sm s) ''liveCalibration''),
     update_model = (\<lambda>s. s),
     update_leads = (\<lambda>s. s),
     update_dmonitoring = (\<lambda>fade rhd s. s),
     filter_update = (\<lambda>x x0. x0 + (x - x0) / 4)\<rparr>"

definition example_paint_state :: "(unit, ExampleCamera) PaintState" where
  "example_paint_state = \<lparr>ps_ui = example_state, ps_widget = example_widget,
     ps_camera = example_camera, ps_globals = example_globals,
     ps_paramsMemory = example_params\<rparr>"

section \<open>Properties\<close>

lemmas example_defs = example_consts_def example_globals_def example_scene_def example_sm_def
  example_state_def example_widget_def example_window_def example_params_def example_env_def
  example_camera_def example_ext_def example_paint_state_def

subsection \<open>AnnotatedCameraWidget::paintGL and the state it reads\<close>

text \<open>
  C1, as stated, fails: a paint call that renders assigns the scene field
  \<^verbatim>\<open>wide_cam\<close> and asks the store to write the key WideCamera. Here
  the driver camera is shown, so none of the refresh functions runs; only the
  road stream exists, so the stream type read back is not the wide one whether
  the base class reports the active or the requested stream; and the scene
  still has \<^verbatim>\<open>wide_cam\<close> set. After the call the field is cleared and
  the write is queued.
\<close>

theorem paintGL_mutates_scene_counterexample:
  "wide_cam (scene (ps_ui (example_paint_state\<lparr>ps_ui :=
      example_state\<lparr>scene := example_scene\<lparr>show_driver_camera := True\<rparr>\<rparr>\<rparr>))) \<and>
   \<not> wide_cam (scene (ps_ui (paintGL example_ext 1000 1012
      (example_paint_state\<lparr>ps_ui :=
         example_state\<lparr>scene := example_scene\<lparr>show_driver_camera := True\<rparr>\<rparr>\<rparr>)))) \<and>
   pending (ps_paramsMemory (example_paint_state\<lparr>ps_ui :=
      example_state\<lparr>scene := example_scene\<lparr>show_driver_camera := True\<rparr>\<rparr>\<rparr>)) = [] \<and>
   pending (ps_paramsMemory (paintGL example_ext 1000 1012
      (example_paint_state\<lparr>ps_ui :=
         example_state\<lparr>scene := example_scene\<lparr>show_driver_camera := True\<rparr>\<rparr>\<rparr>))) =
     [(''WideCamera'', 0)]"
  by (simp add: paintGL_def Let_def example_defs paintGL_wide_cam_requested_def paintGL_updates_def
      putBoolNonBlocking_def putBool_def)

text \<open>
  C1, amended: a skipped paint cycle (no camera frame and a positive skip
  count) changes neither the UI state, scene and snapshot, nor the store. A
  rendered cycle computes the wide-camera request, asks the store for exactly
  one write, of the key WideCamera with that request, sets
  \<^verbatim>\<open>scene.wide_cam\<close> to whether the stream type that the base class
  reports, after the stream for the driver camera or for the request has been
  asked for, is the wide road stream, and then hands the UI state to the
  refresh functions that are due; with the driver camera shown none is due, and
  the snapshot, the status and every scene field other than
  \<^verbatim>\<open>wide_cam\<close> keep their values.
\<close>

theorem paintGL_effects:
  "(frames_empty ext (ps_camera st) \<and> 0 < skip_frame_count (ps_widget st) \<longrightarrow>
      ps_ui (paintGL ext start_draw_t cur_draw_t st) = ps_ui st \<and>
      ps_paramsMemory (paintGL ext start_draw_t cur_draw_t st) = ps_paramsMemory st) \<and>
   (\<not> (frames_empty ext (ps_camera st) \<and> 0 < skip_frame_count (ps_widget st)) \<longrightarrow>
      wide_cam_requested (ps_widget (paintGL ext start_draw_t cur_draw_t st)) =
        paintGL_wide_cam_requested ext (ps_ui st) (ps_camera st)
          (wide_cam_requested (ps_widget st)) \<and>
      ps_paramsMemory (paintGL ext start_draw_t cur_draw_t st) =
        putBoolNonBlocking (ps_paramsMemory st) ''WideCamera''
          (wide_cam_requested (ps_widget (paintGL ext start_draw_t cur_draw_t st))) \<and>
      ps_ui (paintGL ext start_draw_t cur_draw_t st) =
        paintGL_updates ext (ps_widget st)
          ((ps_ui st)\<lparr>scene := (scene (ps_ui st))\<lparr>wide_cam :=
             (getStreamType ext
                (setStreamType ext
                   (if show_driver_camera (scene (ps_ui st)) then VISION_STREAM_DRIVER
                    else if wide_cam_requested (ps_widget (paintGL ext start_draw_t cur_draw_t st))
                      then VISION_STREAM_WIDE_ROAD else VISION_STREAM_ROAD)
                   (ps_camera st)) = VISION_STREAM_WIDE_ROAD)\<rparr>\<rparr>) \<and>
      (show_driver_camera (scene (ps_ui st)) \<longrightarrow>
         sm (ps_ui (paintGL ext start_draw_t cur_draw_t st)) = sm (ps_ui st) \<and>
         ui_status (ps_ui (paintGL ext start_draw_t cur_draw_t st)) = ui_status (ps_ui st) \<and>
         scene (ps_ui (paintGL ext start_draw_t cur_draw_t st)) =
           (scene (ps_ui st))\<lparr>wide_cam :=
              (getStreamType ext (setStreamType ext VISION_STREAM_DRIVER (ps_camera st)) =
               VISION_STREAM_WIDE_ROAD)\<rparr> \<and>
         (scene (ps_ui (paintGL ext start_draw_t cur_draw_t st)))
            \<lparr>wide_cam := wide_cam (scene (ps_ui st))\<rparr> = scene (ps_ui st)))"
proof -
  let ?skip = "frames_empty ext (ps_camera st) \<and> 0 < skip_frame_count (ps_widget st)"
  let ?st' = "paintGL ext start_draw_t cur_draw_t st"
  have upd: "paintGL_updates ext ((ps_widget st)\<lparr>skip_frame_count := 5\<rparr>) s =
      paintGL_updates ext (ps_widget st) s" for s
    by (simp add: paintGL_updates_def Let_def)
  have skipped: "ps_ui ?st' = ps_ui st \<and> ps_paramsMemory ?st' = ps_paramsMemory st" if "?skip"
    using that by (simp add: paintGL_def Let_def)
  have req: "wide_cam_requested (ps_widget ?st') =
      paintGL_wide_cam_requested ext (ps_ui st) (ps_camera st) (wide_cam_requested (ps_widget st))"
    if "\<not> ?skip"
    using that by (cases "frames_empty ext (ps_camera st)") (simp_all add: paintGL_def Let_def)
  have store: "ps_paramsMemory ?st' =
      putBoolNonBlocking (ps_paramsMemory st) ''WideCamera'' (wide_cam_requested (ps_widget ?st'))"
    if "\<not> ?skip"
    using that by (cases "frames_empty ext (ps_camera st)") (simp_all add: paintGL_def Let_def)
  have ui: "ps_ui ?st' =
      paintGL_updates ext (ps_widget st)
        ((ps_ui st)\<lparr>scene := (scene (ps_ui st))\<lparr>wide_cam :=
           (getStreamType ext
              (setStreamType ext
                 (if show_driver_camera (scene (ps_ui st)) then VISION_STREAM_DRIVER
                  else if wide_cam_requested (ps_widget ?st')
                    then VISION_STREAM_WIDE_ROAD else VISION_STREAM_ROAD)
                 (ps_camera st)) = VISION_STREAM_WIDE_ROAD)\<rparr>\<rparr>)"
    if "\<not> ?skip"
    unfolding req [OF that]
    using that upd
    by (cases "frames_empty ext (ps_camera st)") (simp_all add: paintGL_def Let_def)
  have driver: "sm (ps_ui ?st') = sm (ps_ui st) \<and> ui_status (ps_ui ?st') = ui_status (ps_ui st) \<and>
      scene (ps_ui ?st') =
        (scene (ps_ui st))\<lparr>wide_cam :=
           (getStreamType ext (setStreamType ext VISION_STREAM_DRIVER (ps_camera st)) =
            VISION_STREAM_WIDE_ROAD)\<rparr> \<and>
      (scene (ps_ui ?st'))\<lparr>wide_cam := wide_cam (scene (ps_ui st))\<rparr> = scene (ps_ui st)"
    if "\<not> ?skip" "show_driver_camera (scene (ps_ui st))"
    using that
    by (cases "frames_empty ext (ps_camera st)")
      (simp_all add: paintGL_def Let_def paintGL_updates_def)
  show ?thesis
    using skipped req store ui driver by blast
qed

theorem paintGL_effects_witness:
  "ps_ui (paintGL example_ext 1000 1012
      (example_paint_state\<lparr>ps_camera := example_camera\<lparr>ex_frames := []\<rparr>,
         ps_widget := example_widget\<lparr>skip_frame_count := 3\<rparr>\<rparr>)) = example_state \<and>
   ps_paramsMemory (paintGL example_ext 1000 1012
      (example_paint_state\<lparr>ps_camera := example_camera\<lparr>ex_frames := []\<rparr>,
         ps_widget := example_widget\<lparr>skip_frame_count := 3\<rparr>\<rparr>)) = example_params \<and>
   sm (ps_ui (paintGL example_ext 1000 1012
      (example_paint_state\<lparr>ps_ui :=
         example_state\<lparr>scene := example_scene\<lparr>show_driver_camera := True\<rparr>\<rparr>\<rparr>))) = example_sm \<and>
   scene (ps_ui (paintGL example_ext 1000 1012
      (example_paint_state\<lparr>ps_ui :=
         example_state\<lparr>scene := example_scene\<lparr>show_driver_camera := True\<rparr>\<rparr>\<rparr>))) =
     example_scene\<lparr>show_driver_camera := True, wide_cam := False\<rparr> \<and>
   ps_paramsMemory (paintGL example_ext 1000 1012
      (example_paint_state\<lparr>ps_ui :=
         example_state\<lparr>scene := example_scene\<lparr>show_driver_camera := True\<rparr>\<rparr>\<rparr>)) =
     example_params\<lparr>pending := [(''WideCamera'', 0)]\<rparr> \<and>
   scene (ps_ui (paintGL example_ext 1000 1012
      (example_paint_state\<lparr>ps_camera := example_camera\<lparr>ex_active := VISION_STREAM_WIDE_ROAD\<rparr>,
         ps_ui := example_state\<lparr>scene := example_scene\<lparr>wide_cam := False\<rparr>\<rparr>\<rparr>))) = example_scene"
  using paintGL_effects [where ext = example_ext and start_draw_t = 1000 and cur_draw_t = 1012
      and st = "example_paint_state\<lparr>ps_camera := example_camera\<lparr>ex_frames := []\<rparr>,
         ps_widget := example_widget\<lparr>skip_frame_count := 3\<rparr>\<rparr>"]
    paintGL_effects [where ext = example_ext and start_draw_t = 1000 and cur_draw_t = 1012
      and st = "example_paint_state\<lparr>ps_ui :=
         example_state\<lparr>scene := example_scene\<lparr>show_driver_camera := True\<rparr>\<rparr>\<rparr>"]
    paintGL_effects [where ext = example_ext and start_draw_t = 1000 and cur_draw_t = 1012
      and st = "example_paint_state\<lparr>ps_camera := example_camera\<lparr>ex_active := VISION_STREAM_WIDE_ROAD\<rparr>,
         ps_ui := example_state\<lparr>scene := example_scene\<lparr>wide_cam := False\<rparr>\<rparr>\<rparr>"]
  by (simp add: example_defs paintGL_def Let_def paintGL_wide_cam_requested_def
      paintGL_updates_def putBoolNonBlocking_def putBool_def)

subsection \<open>The two speed-limit signs\<close>

text \<open>
  C2, as stated, fails: with the navigation feed alive and valid, a Vienna
  sign in it, and a speed limit of the speed-limit controller cached by the
  previous update, both flags are set and \<^verbatim>\<open>drawHud\<close> paints both
  signs.
\<close>

theorem updateState_both_signs_counterexample:
  "has_us_speed_limit (updateState example_consts example_globals example_state
      (example_widget\<lparr>slcSpeedLimit := 25\<rparr>)) \<and>
   has_eu_speed_limit (updateState example_consts example_globals example_state
      (example_widget\<lparr>slcSpeedLimit := 25\<rparr>)) \<and>
   drawHud_signs (updateState example_consts example_globals example_state
      (example_widget\<lparr>slcSpeedLimit := 25\<rparr>)) =
     [MUTCD_sign (number 90), VIENNA_sign (number 90)]"
  by (simp add: updateState_def Let_def drawHud_signs_def example_defs speedLimitStr_def
      nearbyint_def std_round_def)

text \<open>
  C2, amended: in every snapshot but one kind, the two flags are never both set
  and \<^verbatim>\<open>drawHud\<close> paints at most one sign; the exception is a live
  and valid navigation instruction of the Vienna style that meets a speed limit
  of the speed-limit controller held from the previous update
  (\<^verbatim>\<open>slcSpeedLimit\<close> not 0). Outside the exception the Vienna flag is
  set exactly for a live and valid Vienna instruction, and the MUTCD flag
  exactly for a live and valid MUTCD instruction or a held limit; without a
  held limit the sign style alone selects the sign, and with one the MUTCD
  flag is set.
\<close>

theorem updateState_signs_exclusive:
  "(\<not> (alive (sm s) ''navInstruction'' \<and> valid (sm s) ''navInstruction'' \<and>
        speedLimitSign (navInstruction (sm s)) = VIENNA \<and> slcSpeedLimit w \<noteq> 0) \<longrightarrow>
      has_us_speed_limit (updateState k g s w) =
        ((alive (sm s) ''navInstruction'' \<and> valid (sm s) ''navInstruction'' \<and>
          speedLimitSign (navInstruction (sm s)) = MUTCD) \<or> slcSpeedLimit w \<noteq> 0) \<and>
      has_eu_speed_limit (updateState k g s w) =
        (alive (sm s) ''navInstruction'' \<and> valid (sm s) ''navInstruction'' \<and>
         speedLimitSign (navInstruction (sm s)) = VIENNA) \<and>
      \<not> (has_us_speed_limit (updateState k g s w) \<and> has_eu_speed_limit (updateState k g s w)) \<and>
      length (drawHud_signs (updateState k g s w)) \<le> 1) \<and>
   (slcSpeedLimit w = 0 \<longrightarrow>
      has_us_speed_limit (updateState k g s w) =
        (alive (sm s) ''navInstruction'' \<and> valid (sm s) ''navInstruction'' \<and>
         speedLimitSign (navInstruction (sm s)) = MUTCD)) \<and>
   (slcSpeedLimit w \<noteq> 0 \<longrightarrow> has_us_speed_limit (updateState k g s w))"
proof -
  have us: "has_us_speed_limit (updateState k g s w) =
      ((alive (sm s) ''navInstruction'' \<and> valid (sm s) ''navInstruction'' \<and>
        speedLimitSign (navInstruction (sm s)) = MUTCD) \<or> slcSpeedLimit w \<noteq> 0)"
    by (simp add: updateState_def Let_def)
  have eu: "has_eu_speed_limit (updateState k g s w) =
      (alive (sm s) ''navInstruction'' \<and> valid (sm s) ''navInstruction'' \<and>
       speedLimitSign (navInstruction (sm s)) = VIENNA)"
    by (simp add: updateState_def Let_def)
  have len: "length (drawHud_signs w') \<le> 1"
    if "\<not> (has_us_speed_limit w' \<and> has_eu_speed_limit w')" for w'
    using that by (auto simp: drawHud_signs_def)
  show ?thesis
    using us eu len [of "updateState k g s w"] by auto
qed

theorem updateState_signs_exclusive_witness:
  "\<not> has_us_speed_limit (updateState example_consts example_globals example_state example_widget) \<and>
   has_eu_speed_limit (updateState example_consts example_globals example_state example_widget) \<and>
   drawHud_signs (updateState example_consts example_globals example_state example_widget) =
     [VIENNA_sign (number 90)] \<and>
   has_us_speed_limit (updateState example_consts example_globals
     (example_state\<lparr>sm := example_sm\<lparr>navInstruction :=
        \<lparr>nav_speedLimit = 25, speedLimitSign = MUTCD\<rparr>\<rparr>\<rparr>)
     (example_widget\<lparr>slcSpeedLimit := 25\<rparr>)) \<and>
   \<not> has_eu_speed_limit (updateState example_consts example_globals
     (example_state\<lparr>sm := example_sm\<lparr>navInstruction :=
        \<lparr>nav_speedLimit = 25, speedLimitSign = MUTCD\<rparr>\<rparr>\<rparr>)
     (example_widget\<lparr>slcSpeedLimit := 25\<rparr>)) \<and>
   drawHud_signs (updateState example_consts example_globals
     (example_state\<lparr>sm := example_sm\<lparr>alive := (\<lambda>name. False)\<rparr>\<rparr>)
     (example_widget\<lparr>slcSpeedLimit := 25\<rparr>)) = [MUTCD_sign (number 90)]"
  using updateState_signs_exclusive [of example_state example_widget example_consts example_globals]
    updateState_signs_exclusive [of "example_state\<lparr>sm := example_sm\<lparr>navInstruction :=
        \<lparr>nav_speedLimit = 25, speedLimitSign = MUTCD\<rparr>\<rparr>\<rparr>"
      "example_widget\<lparr>slcSpeedLimit := 25\<rparr>" example_consts example_globals]
    updateState_signs_exclusive [of "example_state\<lparr>sm := example_sm\<lparr>alive := (\<lambda>name. False)\<rparr>\<rparr>"
      "example_widget\<lparr>slcSpeedLimit := 25\<rparr>" example_consts example_globals]
  by (simp add: updateState_def Let_def drawHud_signs_def example_defs speedLimitStr_def
      nearbyint_def std_round_def)

subsection \<open>The gradient of the path edges\<close>

text \<open>
  C3, as stated, fails: with a custom theme selected and experimental mode on,
  the path edges get the gradient of experimental mode, not the one of the
  theme.
\<close>

theorem drawLaneLines_pe_counterexample:
  "drawLaneLines_pe (example_widget\<lparr>customColors := 1, experimentalMode := True\<rparr>) example_scene =
     [(0.0, fromHslF (25 / 360) 0.71 0.50 1.0),
      (0.5, fromHslF (25 / 360) 0.71 0.50 0.5),
      (1.0, fromHslF (25 / 360) 0.71 0.50 0.1)] \<and>
   drawLaneLines_pe (example_widget\<lparr>customColors := 1, experimentalMode := True\<rparr>) example_scene \<noteq>
     map (\<lambda>(position, brush). (position, darker 120 brush)) (colorMap 1)"
  by (simp add: drawLaneLines_pe_def example_widget_def example_scene_def colorMap_def
      themeConfiguration_def)

text \<open>
  C3, amended: the stops of the path-edge gradient follow the priority chain
  always-on-lateral, then conditional (status 1), then experimental mode, then
  navigation, then the custom theme (its colour map, darkened), then the
  default; each mode is used exactly when no earlier one applies.
\<close>

theorem drawLaneLines_pe_chain:
  "(alwaysOnLateral w \<longrightarrow> drawLaneLines_pe w scn =
      [(0.0, fromHslF (178 / 360) 0.90 0.38 1.0),
       (0.5, fromHslF (178 / 360) 0.90 0.38 0.5),
       (1.0, fromHslF (178 / 360) 0.90 0.38 0.1)]) \<and>
   (\<not> alwaysOnLateral w \<and> conditionalStatus w = 1 \<longrightarrow> drawLaneLines_pe w scn =
      [(0.0, fromHslF (58 / 360) 1.00 0.50 1.0),
       (0.5, fromHslF (58 / 360) 1.00 0.50 0.5),
       (1.0, fromHslF (58 / 360) 1.00 0.50 0.1)]) \<and>
   (\<not> alwaysOnLateral w \<and> conditionalStatus w \<noteq> 1 \<and> experimentalMode w \<longrightarrow>
      drawLaneLines_pe w scn =
      [(0.0, fromHslF (25 / 360) 0.71 0.50 1.0),
       (0.5, fromHslF (25 / 360) 0.71 0.50 0.5),
       (1.0, fromHslF (25 / 360) 0.71 0.50 0.1)]) \<and>
   (\<not> alwaysOnLateral w \<and> conditionalStatus w \<noteq> 1 \<and> \<not> experimentalMode w \<and>
    navigate_on_openpilot scn \<longrightarrow> drawLaneLines_pe w scn =
      [(0.0, fromHslF (205 / 360) 0.85 0.56 1.0),
       (0.5, fromHslF (205 / 360) 0.85 0.56 0.5),
       (1.0, fromHslF (205 / 360) 0.85 0.56 0.1)]) \<and>
   (\<not> alwaysOnLateral w \<and> conditionalStatus w \<noteq> 1 \<and> \<not> experimentalMode w \<and>
    \<not> navigate_on_openpilot scn \<and> customColors w \<noteq> 0 \<longrightarrow> drawLaneLines_pe w scn =
      map (\<lambda>(position, brush). (position, darker 120 brush)) (colorMap (customColors w))) \<and>
   (\<not> alwaysOnLateral w \<and> conditionalStatus w \<noteq> 1 \<and> \<not> experimentalMode w \<and>
    \<not> navigate_on_openpilot scn \<and> customColors w = 0 \<longrightarrow> drawLaneLines_pe w scn =
      [(0.0, fromHslF (148 / 360) 0.94 0.51 1.0),
       (0.5, fromHslF (112 / 360) 1.00 0.68 0.5),
       (1.0, fromHslF (112 / 360) 1.00 0.68 0.1)])"
  by (simp add: drawLaneLines_pe_def)

theorem drawLaneLines_pe_chain_witness:
  "drawLaneLines_pe (example_widget\<lparr>customColors := 2\<rparr>) example_scene =
     [(0.0, darker 120 (fromHslF (223 / 360) 1.0 0.5 0.9)),
      (0.5, darker 120 (fromHslF (223 / 360) 1.0 0.5 0.5)),
      (1.0, darker 120 (fromHslF (223 / 360) 1.0 0.5 0.1))] \<and>
   drawLaneLines_pe (example_widget\<lparr>customColors := 2, alwaysOnLateral := True\<rparr>) example_scene =
     [(0.0, fromHslF (178 / 360) 0.90 0.38 1.0),
      (0.5, fromHslF (178 / 360) 0.90 0.38 0.5),
      (1.0, fromHslF (178 / 360) 0.90 0.38 0.1)]"
  using drawLaneLines_pe_chain [of "example_widget\<lparr>customColors := 2\<rparr>" example_scene]
    drawLaneLines_pe_chain [of "example_widget\<lparr>customColors := 2, alwaysOnLateral := True\<rparr>"
      example_scene]
  by (simp add: example_widget_def example_scene_def colorMap_def themeConfiguration_def)

subsection \<open>A stale controlsState feed\<close>

text \<open>
  C4: when the feed controlsState is not alive, \<^verbatim>\<open>updateState\<close>, a total
  function with no error result, sets the set speed to the sentinel 255, so
  that no cruise speed counts as set and the set-speed readout is the dash, and
  sets the displayed speed to 0.
\<close>

theorem updateState_controlsState_stale:
  assumes "\<not> alive (sm s) ''controlsState''"
  shows "setSpeed (updateState k g s w) = 255 \<and> \<not> is_cruise_set (updateState k g s w) \<and>
    setSpeedStr (updateState k g s w) = literal en_dash \<and> speed (updateState k g s w) = 0"
  using assms by (simp add: updateState_def Let_def setSpeedStr_def c_int_def)

theorem updateState_controlsState_stale_witness:
  "\<not> alive (sm (example_state\<lparr>sm := example_sm\<lparr>alive := (\<lambda>name. name \<noteq> ''controlsState'')\<rparr>\<rparr>))
      ''controlsState'' \<and>
   setSpeed (updateState example_consts example_globals
      (example_state\<lparr>sm := example_sm\<lparr>alive := (\<lambda>name. name \<noteq> ''controlsState'')\<rparr>\<rparr>)
      example_widget) = 255 \<and>
   setSpeedStr (updateState example_consts example_globals
      (example_state\<lparr>sm := example_sm\<lparr>alive := (\<lambda>name. name \<noteq> ''controlsState'')\<rparr>\<rparr>)
      example_widget) = literal en_dash \<and>
   speed (updateState example_consts example_globals
      (example_state\<lparr>sm := example_sm\<lparr>alive := (\<lambda>name. name \<noteq> ''controlsState'')\<rparr>\<rparr>)
      example_widget) = 0 \<and>
   speed (updateState example_consts example_globals example_state example_widget) = 72 \<and>
   setSpeedStr (updateState example_consts example_globals example_state example_widget) =
     number 100"
  using updateState_controlsState_stale [of
      "example_state\<lparr>sm := example_sm\<lparr>alive := (\<lambda>name. name \<noteq> ''controlsState'')\<rparr>\<rparr>"
      example_consts example_globals example_widget]
  by (simp add: example_defs updateState_def Let_def setSpeedStr_def c_int_def nearbyint_def)

subsection \<open>The lead chevron\<close>
















subsection \<open>The debug message of a paint call\<close>

text \<open>
  C6: a paint call that is not skipped appends exactly one message to what the
  widget has published, on the service uiDebug, carrying the time between the
  reading at the start of the call and the reading after drawing; a skipped
  call (no camera frame, positive skip count) publishes nothing and uses up one
  unit of the skip count, which a call with a camera frame sets back to 5.
\<close>

theorem paintGL_publishes:
  "pm_sent (ps_widget (paintGL ext start_draw_t cur_draw_t st)) =
     (if frames_empty ext (ps_camera st) \<and> 0 < skip_frame_count (ps_widget st)
      then pm_sent (ps_widget st)
      else pm_sent (ps_widget st) @ [(''uiDebug'', cur_draw_t - start_draw_t)]) \<and>
   skip_frame_count (ps_widget (paintGL ext start_draw_t cur_draw_t st)) =
     (if frames_empty ext (ps_camera st)
      then (if 0 < skip_frame_count (ps_widget st) then skip_frame_count (ps_widget st) - 1
            else skip_frame_count (ps_widget st))
      else 5)"
  by (simp add: paintGL_def Let_def)

theorem paintGL_publishes_witness:
  "pm_sent (ps_widget (paintGL example_ext 1000 1012 example_paint_state)) =
     [(''uiDebug'', 12)] \<and>
   pm_sent (ps_widget (paintGL example_ext 1000 1012
      (example_paint_state\<lparr>ps_camera := example_camera\<lparr>ex_frames := []\<rparr>,
         ps_widget := example_widget\<lparr>skip_frame_count := 3\<rparr>\<rparr>))) = []"
  using paintGL_publishes [where ext = example_ext and start_draw_t = 1000 and cur_draw_t = 1012
      and st = example_paint_state]
    paintGL_publishes [where ext = example_ext and start_draw_t = 1000 and cur_draw_t = 1012
      and st = "example_paint_state\<lparr>ps_camera := example_camera\<lparr>ex_frames := []\<rparr>,
         ps_widget := example_widget\<lparr>skip_frame_count := 3\<rparr>\<rparr>"]
  by (simp add: example_paint_state_def example_camera_def example_ext_def example_widget_def)

subsection \<open>OnroadWindow::mousePressEvent: the three buttons\<close>

text \<open>
  C7: for a click inside at least one of the three rectangles, the call is the
  toggle of the first rectangle, in the order cruise increment, hide speed,
  speed-limit offset, that contains the point, and nothing else: the window is
  unchanged, so no event is passed to the parent and the click timer and the
  map panel are untouched.
\<close>

theorem mousePressEvent_first_match:
  assumes "contains maxSpeedRect pos \<or> contains (speedRect (win e)) pos \<or>
    contains speedLimitRect pos"
  shows "mousePressEvent scn pos e =
     (if contains maxSpeedRect pos then
        e\<lparr>globals := (globals e)\<lparr>reverseCruiseIncrease :=
               \<not> getBool (params e) ''ReverseCruiseIncrease''\<rparr>,
          params := putBoolNonBlocking (params e) ''ReverseCruiseIncrease''
               (\<not> getBool (params e) ''ReverseCruiseIncrease''),
          paramsMemory := putBoolNonBlocking (paramsMemory e) ''FrogPilotTogglesUpdated'' True\<rparr>
      else if contains (speedRect (win e)) pos then
        e\<lparr>globals := (globals e)\<lparr>speedHidden := \<not> getBool (params e) ''HideSpeed''\<rparr>,
          params := putBoolNonBlocking (params e) ''HideSpeed''
               (\<not> getBool (params e) ''HideSpeed'')\<rparr>
      else
        e\<lparr>globals := (globals e)\<lparr>displaySLCOffset := \<not> getBool (params e) ''DisplaySLCOffset''\<rparr>,
          params := putBoolNonBlocking (params e) ''DisplaySLCOffset''
               (\<not> getBool (params e) ''DisplaySLCOffset'')\<rparr>) \<and>
    win (mousePressEvent scn pos e) = win e \<and>
    parent_events (win (mousePressEvent scn pos e)) = parent_events (win e)"
  using assms
  by (auto simp: mousePressEvent_def mousePressEvent_widgets_def Let_def split: option.splits)

theorem mousePressEvent_first_match_witness:
  "contains maxSpeedRect (100, 100) \<and> contains (speedRect (win example_env)) (100, 100) \<and>
   mousePressEvent example_scene (100, 100) example_env =
     example_env\<lparr>globals := example_globals\<lparr>reverseCruiseIncrease := True\<rparr>,
       params := example_params\<lparr>pending := [(''ReverseCruiseIncrease'', 1)]\<rparr>,
       paramsMemory := example_params\<lparr>pending := [(''FrogPilotTogglesUpdated'', 1)]\<rparr>\<rparr>"
  using mousePressEvent_first_match [of "(100, 100)" example_env example_scene]
  by (simp add: maxSpeedRect_def speedRect_def mkQRect_def contains_def center_x_def rect_def
      signed_divide_int_def example_defs getBool_def putBoolNonBlocking_def putBool_def)

subsection \<open>The frame index of the turn-signal animation\<close>

lemma tick_in_range:
  assumes "0 < T" "T \<le> INT_MAX" "0 \<le> animationFrameIndex w" "animationFrameIndex w < T"
  shows "animationTimer_timeout T w =
     Some (w\<lparr>animationFrameIndex := (animationFrameIndex w + 1) mod T\<rparr>)"
  using assms by (simp add: animationTimer_timeout_def smod_int_alt_def sgn_if)

lemma ticks_in_range:
  assumes "0 < T" "T \<le> INT_MAX"
  shows "0 \<le> animationFrameIndex w \<Longrightarrow> animationFrameIndex w < T \<Longrightarrow>
    timer_ticks n T w = Some (w\<lparr>animationFrameIndex := (animationFrameIndex w + int n) mod T\<rparr>)"
proof (induction n arbitrary: w)
  case 0
  then show ?case by simp
next
  case (Suc n)
  let ?w1 = "w\<lparr>animationFrameIndex := (animationFrameIndex w + 1) mod T\<rparr>"
  have step: "animationTimer_timeout T w = Some ?w1"
    using tick_in_range [OF assms Suc.prems] .
  have "timer_ticks n T ?w1 =
      Some (?w1\<lparr>animationFrameIndex := (animationFrameIndex ?w1 + int n) mod T\<rparr>)"
    using assms(1) by (intro Suc.IH) simp_all
  moreover have "((animationFrameIndex w + 1) mod T + int n) mod T =
      (animationFrameIndex w + int (Suc n)) mod T"
    by (simp add: mod_simps algebra_simps)
  ultimately show ?case using step by simp
qed

lemma drawSignal_index_range:
  assumes "0 < T" "T \<le> 17" "0 \<le> animationFrameIndex w"
  shows "0 \<le> drawSignal_index T w flip blindspot \<and>
    drawSignal_index T w flip blindspot < signalImgVector_size"
proof -
  have "(2 * animationFrameIndex w) smod T = (2 * animationFrameIndex w) mod T"
    using assms by (simp add: smod_int_alt_def sgn_if)
  moreover have "0 \<le> (2 * animationFrameIndex w) mod T" "(2 * animationFrameIndex w) mod T < T"
    using assms(1) by simp_all
  ultimately show ?thesis
    using assms(2)
    by (simp add: drawSignal_index_def Let_def signalImgVector_size_def signed_divide_int_def)
qed

text \<open>
  C8: with a positive \<^verbatim>\<open>totalFrames\<close> and a frame index in the range
  from 0 up to, not including, \<^verbatim>\<open>totalFrames\<close> (0 at the start), every
  timer tick is defined and sets the index to the previous index plus one
  modulo \<^verbatim>\<open>totalFrames\<close>; after any number of ticks the index is again
  in that range, and \<^verbatim>\<open>totalFrames\<close> further ticks bring the same index
  back. When \<^verbatim>\<open>totalFrames\<close> is at most 17, every index at which
  \<^verbatim>\<open>drawTurnSignals\<close> then reads the image vector lies inside it.
\<close>

theorem animation_cycle:
  assumes "0 < T" "T \<le> INT_MAX" "0 \<le> animationFrameIndex w" "animationFrameIndex w < T"
  shows "map_option animationFrameIndex (animationTimer_timeout T w) =
      Some ((animationFrameIndex w + 1) mod T) \<and>
    map_option animationFrameIndex (timer_ticks n T w) =
      Some ((animationFrameIndex w + int n) mod T) \<and>
    0 \<le> (animationFrameIndex w + int n) mod T \<and> (animationFrameIndex w + int n) mod T < T \<and>
    map_option animationFrameIndex (timer_ticks (n + nat T) T w) =
      map_option animationFrameIndex (timer_ticks n T w) \<and>
    (T \<le> 17 \<longrightarrow>
       (\<exists>w'. timer_ticks n T w = Some w' \<and>
          list_all (\<lambda>i. 0 \<le> i \<and> i < signalImgVector_size) (drawTurnSignals T w')))"
proof -
  have one: "map_option animationFrameIndex (animationTimer_timeout T w) =
      Some ((animationFrameIndex w + 1) mod T)"
    by (simp add: tick_in_range [OF assms])
  have many: "map_option animationFrameIndex (timer_ticks m T w) =
      Some ((animationFrameIndex w + int m) mod T)" for m
    by (simp add: ticks_in_range [OF assms(1,2,3,4)])
  have range: "0 \<le> (animationFrameIndex w + int n) mod T \<and>
      (animationFrameIndex w + int n) mod T < T"
    using assms(1) by simp
  have "(animationFrameIndex w + int (n + nat T)) mod T = (animationFrameIndex w + int n) mod T"
    using assms(1) by (simp add: add.assoc [symmetric])
  then have period: "map_option animationFrameIndex (timer_ticks (n + nat T) T w) =
      map_option animationFrameIndex (timer_ticks n T w)"
    by (simp only: many)
  have images: "\<exists>w'. timer_ticks n T w = Some w' \<and>
      list_all (\<lambda>i. 0 \<le> i \<and> i < signalImgVector_size) (drawTurnSignals T w')" if "T \<le> 17"
  proof -
    let ?w' = "w\<lparr>animationFrameIndex := (animationFrameIndex w + int n) mod T\<rparr>"
    have "timer_ticks n T w = Some ?w'"
      using ticks_in_range [OF assms(1,2,3,4)] .
    moreover have "0 \<le> animationFrameIndex ?w'" using assms(1) by simp
    then have "list_all (\<lambda>i. 0 \<le> i \<and> i < signalImgVector_size) (drawTurnSignals T ?w')"
      using drawSignal_index_range [OF assms(1) that, of ?w']
      by (simp add: drawTurnSignals_def)
    ultimately show ?thesis by blast
  qed
  show ?thesis using one many [of n] range period images by blast
qed

theorem animation_cycle_witness:
  "(0::int) < 8 \<and> 8 \<le> INT_MAX \<and> animationFrameIndex example_widget = 0 \<and>
   map_option animationFrameIndex (animationTimer_timeout 8 example_widget) = Some 1 \<and>
   map_option animationFrameIndex (timer_ticks 11 8 example_widget) = Some 3 \<and>
   map_option animationFrameIndex (timer_ticks (11 + nat 8) 8 example_widget) =
     map_option animationFrameIndex (timer_ticks 11 8 example_widget)"
  using animation_cycle [of 8 example_widget 11]
  by (simp add: INT_MAX_def example_widget_def)

subsection \<open>The cross-fade of the status bar\<close>

text \<open>
  C10: whatever the elapsed time read from the timer and whether or not the
  status text is being displayed, the opacity of the road name and the opacity
  of the status text are both between 0 and 1 and add up to 1.
\<close>

theorem drawStatusBar_crossfade:
  "0 \<le> fst (drawStatusBar_opacities displayStatusText elapsed) \<and>
   fst (drawStatusBar_opacities displayStatusText elapsed) \<le> 1 \<and>
   0 \<le> snd (drawStatusBar_opacities displayStatusText elapsed) \<and>
   snd (drawStatusBar_opacities displayStatusText elapsed) \<le> 1 \<and>
   fst (drawStatusBar_opacities displayStatusText elapsed) +
   snd (drawStatusBar_opacities displayStatusText elapsed) = 1"
  by (simp add: drawStatusBar_opacities_def Let_def qBound_def)

theorem drawStatusBar_crossfade_witness:
  "drawStatusBar_opacities True 5600 = (2 / 5, 3 / 5) \<and>
   drawStatusBar_opacities False 600 = (2 / 5, 3 / 5) \<and>
   fst (drawStatusBar_opacities True 5600) + snd (drawStatusBar_opacities True 5600) = 1"
  using drawStatusBar_crossfade [of True 5600]
  by (simp add: drawStatusBar_opacities_def Let_def qBound_def sb_textDuration_def
      sb_fadeDuration_def)

subsection \<open>PersonalityButton::handleClick\<close>

text \<open>
  C9: for a profile in {0, 1, 2}, a click is defined and maps 0 to 2, 1 to 0 and
  2 to 1; the new profile is again in {0, 1, 2} and is the value written to the
  key LongitudinalPersonality; three consecutive clicks are defined and give
  back the profile the button started with.
\<close>

theorem handleClick_cycle:
  assumes "personalityProfile b \<in> {0, 1, 2}"
  shows "map_option personalityProfile (handleClick b) =
      Some (if personalityProfile b = 0 then 2 else if personalityProfile b = 1 then 0 else 1) \<and>
    (\<exists>b1. handleClick b = Some b1 \<and> personalityProfile b1 \<in> {0, 1, 2} \<and>
      getInt (pb_params b1) ''LongitudinalPersonality'' = personalityProfile b1) \<and>
    map_option personalityProfile
      (Option.bind (Option.bind (handleClick b) handleClick) handleClick) =
      Some (personalityProfile b)"
  using assms
  by (auto simp: handleClick_def mapping_def pb_updateState_def Let_def getInt_def putInt_def)

theorem handleClick_cycle_witness:
  "personalityProfile \<lparr>personalityProfile = 1, pb_params = example_params,
      pb_paramsMemory = example_params, transitionTimer = 4000\<rparr> \<in> {0, 1, 2} \<and>
   map_option personalityProfile (handleClick \<lparr>personalityProfile = 1,
      pb_params = example_params, pb_paramsMemory = example_params,
      transitionTimer = 4000\<rparr>) = Some 0 \<and>
   map_option personalityProfile
     (Option.bind (Option.bind (handleClick \<lparr>personalityProfile = 1,
        pb_params = example_params, pb_paramsMemory = example_params,
        transitionTimer = 4000\<rparr>) handleClick) handleClick) = Some 1"
  using handleClick_cycle [of "\<lparr>personalityProfile = 1, pb_params = example_params,
      pb_paramsMemory = example_params, transitionTimer = 4000\<rparr>"]
  by simp

end
